theory Spec2Isabelle
  imports Main "HOL-Library.Word"
begin

section \<open>The gossip service of rksync (gossip/service.go)\<close>

text \<open>
  A shallow embedding of \<^verbatim>\<open>gossip/service.go\<close>. The messages follow
  \<^verbatim>\<open>protos/rksync.proto\<close>. The service calls into packages that are not part of
  the sources at hand (rpc, discovery, channel, filter, lib, identity, protos helpers);
  what such a call does is either a field of the record \<open>collab\<close> below (a parameter of
  every theorem) or an entry of the trace of \<open>action\<close>s a function returns.
\<close>

subsection \<open>Wire messages (protos/rksync.proto)\<close>

text \<open>
  Go's \<^verbatim>\<open>[]byte\<close> and \<^verbatim>\<open>string\<close> are both byte sequences; a \<^typ>\<open>char\<close> is
  one byte. \<^verbatim>\<open>bytes.Equal\<close> does not tell a nil slice from an empty one, and neither
  does \<^verbatim>\<open>len\<close>, so both are the empty list.
\<close>

type_synonym bytes = string

record Envelope =
  Payload :: bytes
  Signature :: bytes

datatype Tag = EMPTY | CHAN_ONLY

record ConnEstablish =
  ConnPkiId :: bytes
  ConnIdentity :: bytes

record PeerTime =
  IncNum :: "64 word"
  SeqNum :: "64 word"

record Member =
  Endpoint :: string
  PkiId :: bytes

text \<open>A message-typed field is a pointer in the generated Go code: \<open>None\<close> is nil.\<close>

record AliveMessage =
  Membership :: "Member option"
  Timestamp :: "PeerTime option"
  Identity :: bytes

record Acknowledgement =
  AckError :: string

record MembershipRequest =
  SelfInformation :: "Envelope option"
  Known :: "bytes list"

record MembershipResponse =
  Alive :: "Envelope list"
  Dead :: "Envelope list"

record ChainState =
  StateSeqNum :: "64 word"
  ChainMac :: bytes
  StateEnvelope :: "Envelope option"

datatype Mode = Append | Random

record File =
  Path :: string
  FileMode :: Mode

record Properties =
  Members :: "bytes list"
  Files :: "File list"

record ChainStateInfo =
  Leader :: bytes
  Props :: "Properties option"

record ChainStatePullResponse =
  Element :: "Envelope option"

record ChainStatePullRequest =
  PullChainMac :: bytes

text \<open>The \<^verbatim>\<open>oneof content\<close> of RKSyncMessage; \<open>NoContent\<close> is the unset oneof.\<close>

datatype Content =
    NoContent
  | AliveMsg AliveMessage
  | Empty
  | Conn ConnEstablish
  | Ack Acknowledgement
  | MemReq MembershipRequest
  | MemRes MembershipResponse
  | State ChainState
  | StatePullRequest ChainStatePullRequest
  | StatePullResponse ChainStatePullResponse
  | StateInfo ChainStateInfo

record RKSyncMessage =
  Nonce :: "64 word"
  Channel :: bytes
  MsgTag :: Tag
  MsgContent :: Content

text \<open>
  \<^verbatim>\<open>SignedRKSyncMessage\<close> embeds an envelope pointer and the message. The generated
  getters are nil-safe, so a nil inner message answers every getter used here as a
  message with \<open>NoContent\<close> does.
\<close>

record SignedRKSyncMessage =
  Env :: "Envelope option"
  Msg :: RKSyncMessage

text \<open>The generated getters of the oneof: nil unless the oneof holds that variant.\<close>

definition GetAliveMsg :: "SignedRKSyncMessage \<Rightarrow> AliveMessage option" where
  "GetAliveMsg m = (case MsgContent (Msg m) of AliveMsg a \<Rightarrow> Some a | _ \<Rightarrow> None)"

definition GetMemReq :: "SignedRKSyncMessage \<Rightarrow> MembershipRequest option" where
  "GetMemReq m = (case MsgContent (Msg m) of MemReq r \<Rightarrow> Some r | _ \<Rightarrow> None)"

definition GetMemRes :: "SignedRKSyncMessage \<Rightarrow> MembershipResponse option" where
  "GetMemRes m = (case MsgContent (Msg m) of MemRes r \<Rightarrow> Some r | _ \<Rightarrow> None)"

definition GetState :: "SignedRKSyncMessage \<Rightarrow> ChainState option" where
  "GetState m = (case MsgContent (Msg m) of State s \<Rightarrow> Some s | _ \<Rightarrow> None)"

text \<open>
  Modelled from the spec: the helpers \<^verbatim>\<open>IsAliveMsg\<close> and \<^verbatim>\<open>IsChainStateMsg\<close> of
  package protos are not in the sources; an alive message is one whose content is the
  AliveMessage variant, a chain-state message one whose content is the ChainState variant.
\<close>

definition IsAliveMsg :: "SignedRKSyncMessage \<Rightarrow> bool" where
  "IsAliveMsg m = (GetAliveMsg m \<noteq> None)"

definition IsChainStateMsg :: "SignedRKSyncMessage \<Rightarrow> bool" where
  "IsChainStateMsg m = (GetState m \<noteq> None)"

subsection \<open>Peers, received messages, emitted messages\<close>

record NetworkMember =
  NMEndpoint :: string
  PKIID :: bytes

record ConnectionInfo =
  ID :: bytes
  ConnInfoIdentity :: bytes

text \<open>
  \<^verbatim>\<open>protos.ReceivedMessage\<close> is an interface: the message (which may be nil) and the
  information of the connection it came over. A nil interface value is \<open>None\<close> where a
  function takes a \<open>ReceivedMessage option\<close>.
\<close>

record ReceivedMessage =
  GetRKSyncMessage :: "SignedRKSyncMessage option"
  GetConnectionInfo :: ConnectionInfo

record emittedRKSyncMessage =
  Signed :: SignedRKSyncMessage
  filter_of :: "bytes \<Rightarrow> bool"

text \<open>
  Modelled from the spec: \<^verbatim>\<open>PKIidType.IsNotSameFilter\<close> (package common) is not in the
  sources; the spec calls the filter built from the sender's id "not sender".
\<close>

definition IsNotSameFilter :: "bytes \<Rightarrow> bytes \<Rightarrow> bool" where
  "IsNotSameFilter pkiID that = (pkiID \<noteq> that)"

subsection \<open>Errors and abnormal exits\<close>

text \<open>One constructor for each error the service builds, with the text it wraps.\<close>

datatype error =
    ChannelIDMustBeProvided
  | ServiceIsStopping
  | ChannelMACDoesntMatch bytes bytes
  | FailedToParseStateInformation string
  | FailedVerifyingSignature string
  | StateInformationFormatError string
  | LeaderDoesntMatch bytes bytes
  | EncodingOfCertificateFailed
  | ChannelError string

text \<open>
  Modelled from the spec: Go's errors carry no kind; the kinds are those of the spec's
  error handling design: invalid-input is a bad chain id or a mismatched MAC, stopped is
  a service shutting down, signature-invalid a failed verification.
\<close>

datatype error_kind = InvalidInput | Stopped | SignatureInvalid | OtherError

fun kind_of :: "error \<Rightarrow> error_kind" where
  "kind_of ChannelIDMustBeProvided = InvalidInput"
| "kind_of (ChannelMACDoesntMatch expected actual) = InvalidInput"
| "kind_of ServiceIsStopping = Stopped"
| "kind_of (FailedVerifyingSignature e) = SignatureInvalid"
| "kind_of e = OtherError"

text \<open>
  How a call that yields a value can end: it returns, it panics (a nil dereference), or
  it calls \<^verbatim>\<open>logging.Fatal\<close>.
\<close>

datatype 'a outcome = Returned 'a | Panicked | LoggedFatal

subsection \<open>The service state\<close>

record GossipConfig =
  PropagateIterations :: int
  PropagatePeerNum :: int

text \<open>
  Modelled from the spec: package channel is not in the sources. A channel holds its
  chain id, whether it was joined as leader, and its members;
  \<^verbatim>\<open>IsMemberInChan\<close> is the routing filter "the member's PKI-id is a member of the channel".
\<close>

record channel =
  ChainID :: string
  AsLeader :: bool
  ChanMembers :: "bytes list"


type_synonym Sieve = "SignedRKSyncMessage \<Rightarrow> bool outcome"
type_synonym EnvelopeFilter = "SignedRKSyncMessage \<Rightarrow> Envelope option"
type_synonym DisclosurePolicy = "NetworkMember \<Rightarrow> Sieve \<times> EnvelopeFilter"

record discoveryAdapter =
  stopping :: "32 word"
  da_disclosurePolicy :: DisclosurePolicy

text \<open>
  \<open>disc\<close> is the discovery service (nil before it is created): all the service asks of it
  here is \<^verbatim>\<open>GetMembership\<close>, so it is modelled by the member list it returns.
  \<open>chanState\<close> is the registry of channels by chain id, \<open>chainStateMsgStore\<close> the content
  of the chain-state message store.
\<close>

record gossipService =
  selfPKIid :: bytes
  conf :: GossipConfig
  stopFlag :: "32 word"
  disc :: "NetworkMember list option"
  discAdapter :: discoveryAdapter
  chanState :: "string \<rightharpoonup> channel"
  chainStateMsgStore :: "SignedRKSyncMessage list"

text \<open>
  What the service uses of the packages that are not in the sources, as parameters:
  \<^item> \<open>IsTagLegal\<close>, \<open>IsChannelRestricted\<close>: of the message (an error text, or nil);
  \<^item> \<open>ToRKSyncMessage\<close>: parses an envelope (which may be nil);
  \<^item> \<open>GetChainStateInfo\<close>: parses the state information of a chain state (which may be nil);
  \<^item> \<open>Verify\<close>: \<^verbatim>\<open>signedMsg.Verify(pkiID, idMapper.Verify)\<close>, an error text or nil;
  \<^item> \<open>ComputeSHA256\<close>;
  \<^item> \<open>MessageStore_Add\<close>: \<^verbatim>\<open>Add\<close> of the message store, on the store's content;
  \<^item> \<open>lookupChannelForMsg\<close>: of the channel registry;
  \<^item> \<open>InitializeWithChainState\<close>: of a channel, the error text (or nil) and the channel after;
  \<^item> \<open>SelectPeers\<close>: of package filter (it draws at random);
  \<^item> \<open>NoopSign\<close>: of a signed message.
\<close>

record collab =
  IsTagLegal :: "SignedRKSyncMessage \<Rightarrow> string option"
  IsChannelRestricted :: "SignedRKSyncMessage \<Rightarrow> bool"
  ToRKSyncMessage :: "Envelope option \<Rightarrow> string + SignedRKSyncMessage"
  GetChainStateInfo :: "ChainState option \<Rightarrow> string + ChainStateInfo"
  Verify :: "bytes \<Rightarrow> SignedRKSyncMessage \<Rightarrow> string option"
  ComputeSHA256 :: "bytes \<Rightarrow> bytes"
  MessageStore_Add :: "SignedRKSyncMessage list \<Rightarrow> SignedRKSyncMessage
                         \<Rightarrow> bool \<times> SignedRKSyncMessage list"
  lookupChannelForMsg :: "(string \<rightharpoonup> channel) \<Rightarrow> ReceivedMessage \<Rightarrow> channel option"
  InitializeWithChainState :: "channel \<Rightarrow> ChainState \<Rightarrow> string option \<times> channel"
  SelectPeers :: "int \<Rightarrow> NetworkMember list \<Rightarrow> (NetworkMember \<Rightarrow> bool) \<Rightarrow> NetworkMember list"
  NoopSign :: "SignedRKSyncMessage \<Rightarrow> string + SignedRKSyncMessage"

text \<open>
  Calls on collaborators whose code is not in the sources are recorded, in order, as a
  trace. \<open>Panic\<close> is a Go run-time panic (a nil dereference or an explicit \<^verbatim>\<open>panic\<close>);
  it ends the trace.
\<close>

datatype action =
    EmitterAdd emittedRKSyncMessage
  | StoreAdd SignedRKSyncMessage bool
  | JoinChannel string bool
  | ChannelHandleMessage string ReceivedMessage
  | IncChanSend ReceivedMessage
  | SrvSend SignedRKSyncMessage "NetworkMember list"
  | DiscAdapterClose
  | DiscStop
  | ChanStateStop
  | ToDieChanSend
  | EmitterStop
  | DeMultiplexerClose
  | StopSignalWait
  | SrvStop
  | Panic

subsection \<open>toDie, Peers, Stop\<close>

definition toDie :: "gossipService \<Rightarrow> bool" where
  "toDie g = (stopFlag g = 1)"

text \<open>\<^verbatim>\<open>g.disc.GetMembership()\<close> on a nil \<open>disc\<close> panics.\<close>

definition Peers :: "gossipService \<Rightarrow> NetworkMember list outcome" where
  "Peers g =
     (if toDie g then Returned []
      else case disc g of None \<Rightarrow> Panicked | Some membership \<Rightarrow> Returned membership)"

definition discAdapter_close :: "discoveryAdapter \<Rightarrow> discoveryAdapter" where
  "discAdapter_close da = da\<lparr>stopping := 1\<rparr>"

definition Stop :: "gossipService \<Rightarrow> gossipService \<times> action list" where
  "Stop g =
     (if toDie g then (g, [])
      else (g\<lparr>stopFlag := 1, discAdapter := discAdapter_close (discAdapter g)\<rparr>,
            [DiscAdapterClose, DiscStop, ChanStateStop, ToDieChanSend, EmitterStop,
             DeMultiplexerClose, StopSignalWait, SrvStop]))"

subsection \<open>GetPKIidOfCert\<close>

text \<open>
  \<^verbatim>\<open>pem.EncodeToMemory\<close> (nil on failure, here \<open>None\<close>) and \<^verbatim>\<open>util.ComputeSHA256\<close>
  are parameters; the certificate enters only through its DER bytes \<^verbatim>\<open>cert.Raw\<close>.
\<close>

record pem_Block =
  BlockType :: string
  BlockBytes :: bytes

record x509_Certificate =
  Raw :: bytes

definition GetPKIidOfCert ::
  "(bytes \<Rightarrow> bytes) \<Rightarrow> (pem_Block \<Rightarrow> bytes option) \<Rightarrow> string \<Rightarrow> x509_Certificate
     \<Rightarrow> error + bytes" where
  "GetPKIidOfCert sha256 EncodeToMemory nodeID cert =
     (let nodeIDRaw = nodeID;
          pb = \<lparr>BlockType = ''CERTIFICATE'', BlockBytes = Raw cert\<rparr>
      in case EncodeToMemory pb of
           None \<Rightarrow> Inl EncodingOfCertificateFailed
         | Some pemBytes \<Rightarrow>
             (let raw = nodeIDRaw @ pemBytes; digest = sha256 raw in Inr digest))"

subsection \<open>The channel registry and InitializeChannel\<close>

text \<open>
  Modelled from the spec: \<^verbatim>\<open>channel.GenerateMAC\<close> is not in the sources; the MAC of a
  channel is SHA256(pkiID \<parallel> chainID).
\<close>

definition GenerateMAC :: "(bytes \<Rightarrow> bytes) \<Rightarrow> bytes \<Rightarrow> string \<Rightarrow> bytes" where
  "GenerateMAC sha256 pkiID chainID = sha256 (pkiID @ chainID)"


definition joinChannel ::
  "(string \<rightharpoonup> channel) \<Rightarrow> string \<Rightarrow> bool \<Rightarrow> channel \<times> (string \<rightharpoonup> channel)" where
  "joinChannel cs chainID leader =
     (case cs chainID of
        Some gc \<Rightarrow> (gc, cs)
      | None \<Rightarrow>
          (let gc = \<lparr>ChainID = chainID, AsLeader = leader, ChanMembers = []\<rparr>
           in (gc, cs(chainID \<mapsto> gc))))"

definition InitializeChannel ::
  "collab \<Rightarrow> gossipService \<Rightarrow> string \<Rightarrow> ChainState \<Rightarrow> error option \<times> gossipService" where
  "InitializeChannel c g chainID chainState =
     (if chainID = [] then (Some ChannelIDMustBeProvided, g)
      else if toDie g then (Some ServiceIsStopping, g)
      else
        let mac = GenerateMAC (ComputeSHA256 c) (selfPKIid g) chainID in
        if ChainMac chainState \<noteq> mac
        then (Some (ChannelMACDoesntMatch mac (ChainMac chainState)), g)
        else
          case ToRKSyncMessage c (StateEnvelope chainState) of
            Inl err \<Rightarrow> (Some (FailedToParseStateInformation err), g)
          | Inr signedMsg \<Rightarrow>
              (case Verify c (selfPKIid g) signedMsg of
                 Some err \<Rightarrow> (Some (FailedVerifyingSignature err), g)
               | None \<Rightarrow>
                   (case GetChainStateInfo c (Some chainState) of
                      Inl err \<Rightarrow> (Some (StateInformationFormatError err), g)
                    | Inr stateInfo \<Rightarrow>
                        if Leader stateInfo \<noteq> selfPKIid g
                        then (Some (LeaderDoesntMatch (selfPKIid g) (Leader stateInfo)), g)
                        else
                          let (gc, cs) = joinChannel (chanState g) chainID True;
                              (err, gc') = InitializeWithChainState c gc chainState
                          in (map_option ChannelError err,
                              g\<lparr>chanState := cs(chainID \<mapsto> gc')\<rparr>))))"

subsection \<open>gossipBatch\<close>








subsection \<open>handleMessage\<close>

text \<open>
  A received message whose \<^verbatim>\<open>GetRKSyncMessage()\<close> is nil: the getters answer as for a
  message with no content.
\<close>

definition nilSigned :: SignedRKSyncMessage where
  "nilSigned = \<lparr>Env = None,
     Msg = \<lparr>Nonce = 0, Channel = [], MsgTag = EMPTY, MsgContent = NoContent\<rparr>\<rparr>"

definition signedOf :: "ReceivedMessage \<Rightarrow> SignedRKSyncMessage" where
  "signedOf m = (case GetRKSyncMessage m of None \<Rightarrow> nilSigned | Some s \<Rightarrow> s)"

definition validateMsg :: "collab \<Rightarrow> ReceivedMessage \<Rightarrow> bool" where
  "validateMsg c msg =
     (case IsTagLegal c (signedOf msg) of Some err \<Rightarrow> False | None \<Rightarrow> True)"

text \<open>The loop of \<^verbatim>\<open>isInChannel\<close> over the declared members.\<close>

fun memberLoop :: "bytes list \<Rightarrow> bytes \<Rightarrow> bool" where
  "memberLoop [] self = False"
| "memberLoop (member # members) self =
     (if member = self then True else memberLoop members self)"

text \<open>\<^verbatim>\<open>chainStateInfo.Properties.Members\<close> panics where Properties is nil.\<close>

definition isInChannel :: "collab \<Rightarrow> gossipService \<Rightarrow> ReceivedMessage \<Rightarrow> bool outcome" where
  "isInChannel c g m =
     (let msg = signedOf m in
      case GetChainStateInfo c (GetState msg) of
        Inl err \<Rightarrow> Returned False
      | Inr chainStateInfo \<Rightarrow>
          (case Props chainStateInfo of
             None \<Rightarrow> Panicked
           | Some props \<Rightarrow> Returned (memberLoop (Members props) (selfPKIid g))))"

definition da_toDie :: "discoveryAdapter \<Rightarrow> bool" where
  "da_toDie da = (stopping da = 1)"

definition forwardDiscoveryMsg :: "gossipService \<Rightarrow> ReceivedMessage \<Rightarrow> action list" where
  "forwardDiscoveryMsg g msg = (if da_toDie (discAdapter g) then [] else [IncChanSend msg])"

definition selectOnlyDiscoveryMessages :: "ReceivedMessage \<Rightarrow> bool" where
  "selectOnlyDiscoveryMessages msg =
     (let alive = GetAliveMsg (signedOf msg);
          memRes = GetMemRes (signedOf msg);
          memReq = GetMemReq (signedOf msg)
      in alive \<noteq> None \<or> memRes \<noteq> None \<or> memReq \<noteq> None)"

text \<open>The branch of \<^verbatim>\<open>handleMessage\<close> for a chain-state message.\<close>

definition handleChainStateMsg ::
  "collab \<Rightarrow> gossipService \<Rightarrow> ReceivedMessage \<Rightarrow> SignedRKSyncMessage
     \<Rightarrow> gossipService \<times> action list" where
  "handleChainStateMsg c g m msg =
     (let emitted = EmitterAdd
            \<lparr>Signed = msg, filter_of = IsNotSameFilter (ID (GetConnectionInfo m))\<rparr>;
          (added, store) = MessageStore_Add c (chainStateMsgStore g) msg;
          g1 = g\<lparr>chainStateMsgStore := store\<rparr>
      in if added then
           (case lookupChannelForMsg c (chanState g1) m of
              Some gc \<Rightarrow>
                (g1, [emitted, StoreAdd msg added, ChannelHandleMessage (ChainID gc) m])
            | None \<Rightarrow>
                (case isInChannel c g1 m of
                   Panicked \<Rightarrow> (g1, [emitted, StoreAdd msg added, Panic])
                 | LoggedFatal \<Rightarrow> (g1, [emitted, StoreAdd msg added, Panic])
                 | Returned False \<Rightarrow> (g1, [emitted, StoreAdd msg added])
                 | Returned True \<Rightarrow>
                     (let (gc, cs) = joinChannel (chanState g1) (Channel (Msg msg)) False
                      in (g1\<lparr>chanState := cs\<rparr>,
                          [emitted, StoreAdd msg added, JoinChannel (Channel (Msg msg)) False,
                           ChannelHandleMessage (ChainID gc) m]))))
         else (g1, [emitted, StoreAdd msg added]))"

text \<open>The branch for a discovery message (alive, membership request or response).\<close>

definition handleDiscoveryMsg ::
  "collab \<Rightarrow> gossipService \<Rightarrow> ReceivedMessage \<Rightarrow> action list" where
  "handleDiscoveryMsg c g m =
     (case GetMemReq (signedOf m) of
        Some memReq \<Rightarrow>
          (case ToRKSyncMessage c (SelfInformation memReq) of
             Inl err \<Rightarrow> []
           | Inr sMsg \<Rightarrow>
               if \<not> IsAliveMsg sMsg then []
               else
                 (case GetAliveMsg sMsg of
                    None \<Rightarrow> [Panic]
                  | Some aliveMsg \<Rightarrow>
                      (case Membership aliveMsg of
                         None \<Rightarrow> [Panic]
                       | Some membership \<Rightarrow>
                           if PkiId membership \<noteq> ID (GetConnectionInfo m) then []
                           else forwardDiscoveryMsg g m)))
      | None \<Rightarrow> forwardDiscoveryMsg g m)"

definition handleMessage ::
  "collab \<Rightarrow> gossipService \<Rightarrow> ReceivedMessage option \<Rightarrow> gossipService \<times> action list" where
  "handleMessage c g mo =
     (if toDie g then (g, [])
      else
        case mo of
          None \<Rightarrow> (g, [])
        | Some m \<Rightarrow>
            (case GetRKSyncMessage m of
               None \<Rightarrow> (g, [])
             | Some msg \<Rightarrow>
                 if \<not> validateMsg c m then (g, [])
                 else if IsChainStateMsg msg then handleChainStateMsg c g m msg
                 else if IsChannelRestricted c msg then
                   (case lookupChannelForMsg c (chanState g) m of
                      Some gc \<Rightarrow> (g, [ChannelHandleMessage (ChainID gc) m])
                    | None \<Rightarrow> (g, []))
                 else if selectOnlyDiscoveryMessages m then (g, handleDiscoveryMsg c g m)
                 else (g, [])))"

subsection \<open>The discovery adapter: Gossip, Forward, SendToPeer\<close>

definition gossipFunc :: "gossipService \<Rightarrow> SignedRKSyncMessage \<Rightarrow> action list" where
  "gossipFunc g msg =
     (if PropagateIterations (conf g) = 0 then []
      else [EmitterAdd \<lparr>Signed = msg, filter_of = (\<lambda>_. True)\<rparr>])"

definition forwardFunc :: "gossipService \<Rightarrow> ReceivedMessage \<Rightarrow> action list" where
  "forwardFunc g msg =
     (if PropagateIterations (conf g) = 0 then []
      else [EmitterAdd \<lparr>Signed = signedOf msg,
              filter_of = IsNotSameFilter (ID (GetConnectionInfo msg))\<rparr>])"

definition Gossip :: "gossipService \<Rightarrow> SignedRKSyncMessage \<Rightarrow> action list" where
  "Gossip g msg = (if da_toDie (discAdapter g) then [] else gossipFunc g msg)"

definition Forward :: "gossipService \<Rightarrow> ReceivedMessage \<Rightarrow> action list" where
  "Forward g msg = (if da_toDie (discAdapter g) then [] else forwardFunc g msg)"

text \<open>\<^verbatim>\<open>proto.Clone\<close>: a deep copy, field by field.\<close>

definition clone_Envelope :: "Envelope option \<Rightarrow> Envelope option" where
  "clone_Envelope e =
     (case e of None \<Rightarrow> None
      | Some env \<Rightarrow> Some \<lparr>Payload = Payload env, Signature = Signature env\<rparr>)"

definition clone_RKSyncMessage :: "RKSyncMessage \<Rightarrow> RKSyncMessage" where
  "clone_RKSyncMessage m =
     \<lparr>Nonce = Nonce m, Channel = Channel m, MsgTag = MsgTag m, MsgContent = MsgContent m\<rparr>"

definition SendToPeer ::
  "collab \<Rightarrow> discoveryAdapter \<Rightarrow> NetworkMember \<Rightarrow> SignedRKSyncMessage \<Rightarrow> action list" where
  "SendToPeer c da peer msg =
     (if da_toDie da then []
      else
        case GetMemReq msg of
          None \<Rightarrow> [SrvSend msg [peer]]
        | Some memReq \<Rightarrow>
            if length (PKIID peer) \<noteq> 0 then
              (case ToRKSyncMessage c (SelfInformation memReq) of
                 Inl err \<Rightarrow> [Panic]
               | Inr selfMsg \<Rightarrow>
                   (let omitConcealedFields = snd (da_disclosurePolicy da peer);
                        selfMsg' = selfMsg\<lparr>Env := omitConcealedFields selfMsg\<rparr>;
                        oldKnown = Known memReq;
                        memReq' = \<lparr>SelfInformation = Env selfMsg', Known = oldKnown\<rparr>;
                        msgCopy = clone_RKSyncMessage (Msg msg);
                        msgCopy' = msgCopy\<lparr>MsgContent := MemReq memReq'\<rparr>
                    in case NoopSign c \<lparr>Env = None, Msg = msgCopy'\<rparr> of
                         Inl err \<Rightarrow> []
                       | Inr signedMsg \<Rightarrow> [SrvSend signedMsg [peer]]))
            else [SrvSend msg [peer]])"

subsection \<open>The default disclosure policy\<close>

text \<open>
  The method does not use its receiver. \<^verbatim>\<open>logging.Fatal\<close> on a message that is not alive;
  \<^verbatim>\<open>msg.GetAliveMsg().Membership.Endpoint\<close> panics where Membership is nil.
\<close>

definition disclosurePolicy :: DisclosurePolicy where
  "disclosurePolicy remotePeer =
     ((\<lambda>msg.
         if \<not> IsAliveMsg msg then LoggedFatal
         else
           case GetAliveMsg msg of
             None \<Rightarrow> Panicked
           | Some aliveMsg \<Rightarrow>
               (case Membership aliveMsg of
                  None \<Rightarrow> Panicked
                | Some membership \<Rightarrow>
                    Returned (Endpoint membership \<noteq> [] \<and> NMEndpoint remotePeer \<noteq> []))),
      (\<lambda>msg. let envelope = clone_Envelope (Env msg) in envelope))"

subsection \<open>Concrete inputs\<close>

text \<open>
  A running service with two known peers and one channel, and stand-ins for its
  collaborators: a tag rule (discovery content needs tag EMPTY, any other content tag
  CHAN_ONLY and a channel), a parser that knows three payloads, a store that refuses a
  message it holds, a registry lookup by the message's channel, and a peer selection
  that takes the first k members the filter admits.
\<close>

definition peerA :: NetworkMember where
  "peerA = \<lparr>NMEndpoint = ''a:7051'', PKIID = ''pA''\<rparr>"

definition peerB :: NetworkMember where
  "peerB = \<lparr>NMEndpoint = ''b:7051'', PKIID = ''pB''\<rparr>"

definition peerNoEndpoint :: NetworkMember where
  "peerNoEndpoint = \<lparr>NMEndpoint = [], PKIID = ''pC''\<rparr>"

definition chan1 :: channel where
  "chan1 = \<lparr>ChainID = ''c1'', AsLeader = True, ChanMembers = [''self'', ''pA'']\<rparr>"

definition service0 :: gossipService where
  "service0 =
     \<lparr>selfPKIid = ''self'',
      conf = \<lparr>PropagateIterations = 1, PropagatePeerNum = 3\<rparr>,
      stopFlag = 0,
      disc = Some [peerA, peerB],
      discAdapter = \<lparr>stopping = 0, da_disclosurePolicy = disclosurePolicy\<rparr>,
      chanState = [''c1'' \<mapsto> chan1],
      chainStateMsgStore = []\<rparr>"

definition aliveOf :: "string \<Rightarrow> bytes \<Rightarrow> Envelope option \<Rightarrow> SignedRKSyncMessage" where
  "aliveOf ep pki env =
     \<lparr>Env = env,
      Msg = \<lparr>Nonce = 0, Channel = [], MsgTag = EMPTY,
             MsgContent = AliveMsg \<lparr>Membership = Some \<lparr>Endpoint = ep, PkiId = pki\<rparr>,
                                    Timestamp = Some \<lparr>IncNum = 1, SeqNum = 1\<rparr>,
                                    Identity = []\<rparr>\<rparr>\<rparr>"

definition parse0 :: "Envelope option \<Rightarrow> string + SignedRKSyncMessage" where
  "parse0 e =
     (case e of
        None \<Rightarrow> Inl ''nil envelope''
      | Some env \<Rightarrow>
          if Payload env = ''alive pA'' then Inr (aliveOf ''a:7051'' ''pA'' e)
          else if Payload env = ''alive pB'' then Inr (aliveOf ''b:7051'' ''pB'' e)
          else if Payload env = ''state c1'' then
            Inr \<lparr>Env = e, Msg = \<lparr>Nonce = 0, Channel = ''c1'', MsgTag = CHAN_ONLY,
                    MsgContent = StateInfo \<lparr>Leader = ''self'',
                      Props = Some \<lparr>Members = [''self'', ''pA''], Files = []\<rparr>\<rparr>\<rparr>\<rparr>
          else Inl ''malformed payload'')"

definition stateInfo0 :: "ChainState option \<Rightarrow> string + ChainStateInfo" where
  "stateInfo0 st =
     (case st of
        None \<Rightarrow> Inl ''nil state''
      | Some s \<Rightarrow>
          (case parse0 (StateEnvelope s) of
             Inl err \<Rightarrow> Inl err
           | Inr m \<Rightarrow>
               (case MsgContent (Msg m) of
                  StateInfo info \<Rightarrow> Inr info
                | _ \<Rightarrow> Inl ''not a state info'')))"

definition tagLegal0 :: "SignedRKSyncMessage \<Rightarrow> string option" where
  "tagLegal0 m =
     (if GetAliveMsg m \<noteq> None \<or> GetMemReq m \<noteq> None \<or> GetMemRes m \<noteq> None
      then (if MsgTag (Msg m) = EMPTY then None else Some ''tag should be EMPTY'')
      else (if MsgTag (Msg m) = CHAN_ONLY \<and> Channel (Msg m) \<noteq> [] then None
            else Some ''tag should be CHAN_ONLY''))"

definition collab0 :: collab where
  "collab0 =
     \<lparr>IsTagLegal = tagLegal0,
      IsChannelRestricted = (\<lambda>m. MsgTag (Msg m) = CHAN_ONLY),
      ToRKSyncMessage = parse0,
      GetChainStateInfo = stateInfo0,
      Verify = (\<lambda>pkiID m. None),
      ComputeSHA256 = (\<lambda>b. ''sha256('' @ b @ '')''),
      MessageStore_Add = (\<lambda>store m. if m \<in> set store then (False, store) else (True, store @ [m])),
      lookupChannelForMsg = (\<lambda>cs m. cs (Channel (Msg (signedOf m)))),
      InitializeWithChainState = (\<lambda>gc st. (None, gc\<lparr>ChanMembers := [''self'', ''pA'']\<rparr>)),
      SelectPeers = (\<lambda>k ms p. take (nat k) (filter p ms)),
      NoopSign = (\<lambda>m. Inr (m\<lparr>Env := Some \<lparr>Payload = ''noop'', Signature = []\<rparr>\<rparr>))\<rparr>"

text \<open>The same collaborators with an identity mapper that verifies no signature.\<close>

definition collabBadSig :: collab where
  "collabBadSig = collab0\<lparr>Verify := (\<lambda>pkiID m. Some ''bad signature'')\<rparr>"

text \<open>A chain state of channel c1 and the message carrying it, received from peer B.\<close>

definition state1 :: ChainState where
  "state1 = \<lparr>StateSeqNum = 1, ChainMac = ''sha256(selfc1)'',
             StateEnvelope = Some \<lparr>Payload = ''state c1'', Signature = ''sig''\<rparr>\<rparr>"

definition stateMsg1 :: SignedRKSyncMessage where
  "stateMsg1 =
     \<lparr>Env = Some \<lparr>Payload = ''msg'', Signature = ''forged''\<rparr>,
      Msg = \<lparr>Nonce = 0, Channel = ''c1'', MsgTag = CHAN_ONLY, MsgContent = State state1\<rparr>\<rparr>"

definition connB :: ConnectionInfo where
  "connB = \<lparr>ID = ''pB'', ConnInfoIdentity = ''certB''\<rparr>"

definition recvState1 :: ReceivedMessage where
  "recvState1 = \<lparr>GetRKSyncMessage = Some stateMsg1, GetConnectionInfo = connB\<rparr>"

text \<open>A membership request of peer B carrying its own alive message, and one carrying A's.\<close>

definition memReqOf :: "bytes \<Rightarrow> SignedRKSyncMessage" where
  "memReqOf payload =
     \<lparr>Env = None,
      Msg = \<lparr>Nonce = 7, Channel = [], MsgTag = EMPTY,
             MsgContent = MemReq \<lparr>SelfInformation = Some \<lparr>Payload = payload, Signature = ''s''\<rparr>,
                                  Known = [''pA'']\<rparr>\<rparr>\<rparr>"

definition recvMemReq :: "bytes \<Rightarrow> ReceivedMessage" where
  "recvMemReq payload = \<lparr>GetRKSyncMessage = Some (memReqOf payload), GetConnectionInfo = connB\<rparr>"



text \<open>
  An alive message without a membership (the Membership pointer is nil), and collaborators
  whose parser reads every envelope as that message.
\<close>

definition aliveNoMembership :: SignedRKSyncMessage where
  "aliveNoMembership =
     \<lparr>Env = Some \<lparr>Payload = ''alive'', Signature = ''s''\<rparr>,
      Msg = \<lparr>Nonce = 0, Channel = [], MsgTag = EMPTY,
             MsgContent = AliveMsg \<lparr>Membership = None,
                                    Timestamp = Some \<lparr>IncNum = 1, SeqNum = 1\<rparr>,
                                    Identity = []\<rparr>\<rparr>\<rparr>"

definition collabNilMembership :: collab where
  "collabNilMembership = collab0\<lparr>ToRKSyncMessage := (\<lambda>e. Inr aliveNoMembership)\<rparr>"

text \<open>A service configured not to propagate, and one that is stopping.\<close>

definition serviceNoPropagation :: gossipService where
  "serviceNoPropagation = service0\<lparr>conf := \<lparr>PropagateIterations = 0, PropagatePeerNum = 3\<rparr>\<rparr>"

definition serviceStopping :: gossipService where
  "serviceStopping = service0\<lparr>stopFlag := 1\<rparr>"

text \<open>A discovery adapter whose disclosure policy redacts the envelope.\<close>

definition redactingAdapter :: discoveryAdapter where
  "redactingAdapter =
     \<lparr>stopping = 0,
      da_disclosurePolicy =
        (\<lambda>peer. ((\<lambda>msg. Returned True),
                  (\<lambda>msg. Some \<lparr>Payload = ''redacted'', Signature = []\<rparr>)))\<rparr>"

section \<open>Theorems\<close>

subsection \<open>Auxiliary facts\<close>

lemma clone_Envelope_id: "clone_Envelope e = e"
  by (cases e) (simp_all add: clone_Envelope_def)

lemma clone_RKSyncMessage_id: "clone_RKSyncMessage m = m"
  by (simp add: clone_RKSyncMessage_def)





lemma memberLoop_set: "memberLoop members self = (self \<in> set members)"
  by (induction members) auto

lemma isInChannel_True:
  "isInChannel c g m = Returned True \<Longrightarrow>
     \<exists>info props. GetChainStateInfo c (GetState (signedOf m)) = Inr info \<and>
        Props info = Some props \<and> selfPKIid g \<in> set (Members props)"
  by (auto simp: isInChannel_def Let_def memberLoop_set split: sum.splits option.splits)

lemma handleChainStateMsg_trace:
  "\<exists>rest. snd (handleChainStateMsg c g m msg) =
       EmitterAdd \<lparr>Signed = msg, filter_of = IsNotSameFilter (ID (GetConnectionInfo m))\<rparr>
       # StoreAdd msg (fst (MessageStore_Add c (chainStateMsgStore g) msg)) # rest \<and>
     chainStateMsgStore (fst (handleChainStateMsg c g m msg))
       = snd (MessageStore_Add c (chainStateMsgStore g) msg) \<and>
     (\<not> fst (MessageStore_Add c (chainStateMsgStore g) msg) \<longrightarrow>
        rest = [] \<and> chanState (fst (handleChainStateMsg c g m msg)) = chanState g) \<and>
     (\<forall>ch m'. ChannelHandleMessage ch m' \<in> set rest \<longrightarrow> m' = m) \<and>
     (\<forall>ch l. JoinChannel ch l \<in> set rest \<longrightarrow>
        \<not> l \<and> ch = Channel (Msg msg) \<and>
        lookupChannelForMsg c (chanState g) m = None \<and>
        (\<exists>info props. GetChainStateInfo c (GetState (signedOf m)) = Inr info \<and>
           Props info = Some props \<and> selfPKIid g \<in> set (Members props))) \<and>
     (chanState (fst (handleChainStateMsg c g m msg)) \<noteq> chanState g \<longrightarrow>
        JoinChannel (Channel (Msg msg)) False \<in> set rest)"
proof (cases "MessageStore_Add c (chainStateMsgStore g) msg")
  case (Pair added store)
  show ?thesis
  proof (cases added)
    case False
    with Pair show ?thesis by (simp add: handleChainStateMsg_def)
  next
    case True
    note added = this
    show ?thesis
    proof (cases "lookupChannelForMsg c (chanState g) m")
      case (Some gc)
      with Pair added show ?thesis by (simp add: handleChainStateMsg_def)
    next
      case None
      show ?thesis
      proof (cases "isInChannel c (g\<lparr>chainStateMsgStore := store\<rparr>) m")
        case (Returned b)
        show ?thesis
        proof (cases b)
          case True
          with Returned isInChannel_True [of c "g\<lparr>chainStateMsgStore := store\<rparr>" m]
          obtain info props where "GetChainStateInfo c (GetState (signedOf m)) = Inr info"
            "Props info = Some props" "selfPKIid g \<in> set (Members props)"
            by auto
          with Pair added None Returned True show ?thesis
            by (simp add: handleChainStateMsg_def split: prod.splits)
        next
          case False
          with Pair added None Returned show ?thesis by (simp add: handleChainStateMsg_def)
        qed
      next
        case Panicked
        with Pair added None show ?thesis by (simp add: handleChainStateMsg_def)
      next
        case LoggedFatal
        with Pair added None show ?thesis by (simp add: handleChainStateMsg_def)
      qed
    qed
  qed
qed

lemma memReq_not_chain_state: "GetMemReq msg = Some req \<Longrightarrow> \<not> IsChainStateMsg msg"
  by (auto simp: GetMemReq_def IsChainStateMsg_def GetState_def split: Content.splits)

lemma handleDiscoveryMsg_memReq:
  assumes "GetMemReq (signedOf m) = Some req"
  shows "handleDiscoveryMsg c g m =
     (case ToRKSyncMessage c (SelfInformation req) of
        Inl err \<Rightarrow> []
      | Inr sMsg \<Rightarrow>
          (case GetAliveMsg sMsg of
             None \<Rightarrow> []
           | Some am \<Rightarrow>
               (case Membership am of
                  None \<Rightarrow> [Panic]
                | Some mem \<Rightarrow>
                    if PkiId mem = ID (GetConnectionInfo m) then forwardDiscoveryMsg g m
                    else [])))"
  using assms
  by (simp add: handleDiscoveryMsg_def IsAliveMsg_def split: sum.splits option.splits)

lemma validateMsg_Verify: "validateMsg (c\<lparr>Verify := v\<rparr>) m = validateMsg c m"
  by (simp add: validateMsg_def)

lemma isInChannel_Verify: "isInChannel (c\<lparr>Verify := v\<rparr>) g m = isInChannel c g m"
  by (simp add: isInChannel_def)

lemma handleChainStateMsg_Verify:
  "handleChainStateMsg (c\<lparr>Verify := v\<rparr>) g m msg = handleChainStateMsg c g m msg"
  by (simp add: handleChainStateMsg_def isInChannel_Verify Let_def
        cong: option.case_cong outcome.case_cong if_cong prod.case_cong bool.case_cong)

lemma handleDiscoveryMsg_Verify:
  "handleDiscoveryMsg (c\<lparr>Verify := v\<rparr>) g m = handleDiscoveryMsg c g m"
  by (simp add: handleDiscoveryMsg_def cong: option.case_cong sum.case_cong if_cong)

lemma handleMessage_Verify:
  "handleMessage (c\<lparr>Verify := v\<rparr>) g m = handleMessage c g m"
  by (simp add: handleMessage_def validateMsg_Verify handleChainStateMsg_Verify
        handleDiscoveryMsg_Verify cong: option.case_cong if_cong)

subsection \<open>Inbound messages\<close>

text \<open>
  C1. Every inbound message that handleMessage processes has a verified signature or is
  a membership request; validateMsg establishes signature validity. The code does not do
  so: validateMsg checks the tag only and handleMessage never calls Verify, so neither
  depends on what Verify answers. Here a chain-state message with a legal tag, whose
  signature no identity verifies, passes validateMsg, is handed to the emitter and the
  chain-state store and delivered to its channel.
\<close>

theorem handleMessage_processes_unverified_chain_state:
  "(\<forall>c v g m. handleMessage (c\<lparr>Verify := v\<rparr>) g m = handleMessage c g m) \<and>
   (\<forall>c v m. validateMsg (c\<lparr>Verify := v\<rparr>) m = validateMsg c m) \<and>
   validateMsg collabBadSig recvState1 \<and>
   (\<forall>pkiID. Verify collabBadSig pkiID stateMsg1 = Some ''bad signature'') \<and>
   GetMemReq stateMsg1 = None \<and>
   handleMessage collabBadSig service0 (Some recvState1) =
     (service0\<lparr>chainStateMsgStore := [stateMsg1]\<rparr>,
      [EmitterAdd \<lparr>Signed = stateMsg1, filter_of = IsNotSameFilter ''pB''\<rparr>,
       StoreAdd stateMsg1 True, ChannelHandleMessage ''c1'' recvState1])"
proof -
  have 3: "validateMsg collabBadSig recvState1"
    by (simp add: validateMsg_def signedOf_def recvState1_def collabBadSig_def collab0_def
          tagLegal0_def stateMsg1_def GetAliveMsg_def GetMemReq_def GetMemRes_def)
  have 4: "IsChainStateMsg stateMsg1"
    by (simp add: IsChainStateMsg_def GetState_def stateMsg1_def)
  have a: "handleMessage collabBadSig service0 (Some recvState1) =
     (service0\<lparr>chainStateMsgStore := [stateMsg1]\<rparr>,
      [EmitterAdd \<lparr>Signed = stateMsg1, filter_of = IsNotSameFilter ''pB''\<rparr>,
       StoreAdd stateMsg1 True, ChannelHandleMessage ''c1'' recvState1])"
    using 3 4
    by (simp add: handleMessage_def handleChainStateMsg_def recvState1_def connB_def)
       (simp add: collabBadSig_def collab0_def service0_def signedOf_def stateMsg1_def
          chan1_def toDie_def)
  have b: "(\<forall>pkiID. Verify collabBadSig pkiID stateMsg1 = Some ''bad signature'') \<and>
      GetMemReq stateMsg1 = None"
    by (simp add: collabBadSig_def GetMemReq_def stateMsg1_def)
  from 3 a b show ?thesis
    by (simp add: handleMessage_Verify validateMsg_Verify)
qed

text \<open>
  C4. For every valid inbound chain-state message m (the service is running and m
  passes validateMsg), handleMessage first adds m to the emitter with a filter that
  excludes the sender's PKI-id, then calls Add on the chain-state store. Unless Add
  returned true nothing else happens: no channel is joined and m is delivered to none.
  A channel is joined only as follower, only when the lookup found none, and only when
  the local PKI-id is among the members m's state information declares.
\<close>

theorem handleMessage_chain_state:
  assumes "\<not> toDie g" and "GetRKSyncMessage m = Some msg" and "validateMsg c m"
    and "IsChainStateMsg msg"
  shows "\<exists>rest. snd (handleMessage c g (Some m)) =
       EmitterAdd \<lparr>Signed = msg, filter_of = IsNotSameFilter (ID (GetConnectionInfo m))\<rparr>
       # StoreAdd msg (fst (MessageStore_Add c (chainStateMsgStore g) msg)) # rest \<and>
     \<not> IsNotSameFilter (ID (GetConnectionInfo m)) (ID (GetConnectionInfo m)) \<and>
     chainStateMsgStore (fst (handleMessage c g (Some m)))
       = snd (MessageStore_Add c (chainStateMsgStore g) msg) \<and>
     (\<not> fst (MessageStore_Add c (chainStateMsgStore g) msg) \<longrightarrow>
        rest = [] \<and> chanState (fst (handleMessage c g (Some m))) = chanState g) \<and>
     (\<forall>ch m'. ChannelHandleMessage ch m' \<in> set rest \<longrightarrow> m' = m) \<and>
     (\<forall>ch l. JoinChannel ch l \<in> set rest \<longrightarrow>
        \<not> l \<and> ch = Channel (Msg msg) \<and>
        lookupChannelForMsg c (chanState g) m = None \<and>
        (\<exists>info props. GetChainStateInfo c (GetState msg) = Inr info \<and>
           Props info = Some props \<and> selfPKIid g \<in> set (Members props))) \<and>
     (chanState (fst (handleMessage c g (Some m))) \<noteq> chanState g \<longrightarrow>
        JoinChannel (Channel (Msg msg)) False \<in> set rest)"
proof -
  have h: "handleMessage c g (Some m) = handleChainStateMsg c g m msg"
    using assms by (simp add: handleMessage_def)
  have s: "signedOf m = msg"
    using assms(2) by (simp add: signedOf_def)
  show ?thesis
    using handleChainStateMsg_trace [of c g m msg]
    unfolding h s by (simp add: IsNotSameFilter_def)
qed

theorem handleMessage_chain_state_witness:
  "\<not> toDie service0 \<and> validateMsg collab0 recvState1 \<and> IsChainStateMsg stateMsg1 \<and>
   handleMessage collab0 service0 (Some recvState1) =
     (service0\<lparr>chainStateMsgStore := [stateMsg1]\<rparr>,
      [EmitterAdd \<lparr>Signed = stateMsg1, filter_of = IsNotSameFilter ''pB''\<rparr>,
       StoreAdd stateMsg1 True, ChannelHandleMessage ''c1'' recvState1]) \<and>
   handleMessage collab0 (service0\<lparr>chanState := Map.empty\<rparr>) (Some recvState1) =
     (service0\<lparr>chainStateMsgStore := [stateMsg1],
               chanState := [''c1'' \<mapsto> \<lparr>ChainID = ''c1'', AsLeader = False, ChanMembers = []\<rparr>]\<rparr>,
      [EmitterAdd \<lparr>Signed = stateMsg1, filter_of = IsNotSameFilter ''pB''\<rparr>,
       StoreAdd stateMsg1 True, JoinChannel ''c1'' False,
       ChannelHandleMessage ''c1'' recvState1]) \<and>
   handleMessage collab0 (service0\<lparr>chainStateMsgStore := [stateMsg1]\<rparr>) (Some recvState1) =
     (service0\<lparr>chainStateMsgStore := [stateMsg1]\<rparr>,
      [EmitterAdd \<lparr>Signed = stateMsg1, filter_of = IsNotSameFilter ''pB''\<rparr>,
       StoreAdd stateMsg1 False])"
proof -
  have 1: "\<not> toDie service0"
    by (simp add: toDie_def service0_def)
  have 2: "GetRKSyncMessage recvState1 = Some stateMsg1"
    by (simp add: recvState1_def)
  have 3: "validateMsg collab0 recvState1"
    by (simp add: validateMsg_def signedOf_def recvState1_def collab0_def tagLegal0_def
          stateMsg1_def GetAliveMsg_def GetMemReq_def GetMemRes_def)
  have 4: "IsChainStateMsg stateMsg1"
    by (simp add: IsChainStateMsg_def GetState_def stateMsg1_def)
  have a: "handleMessage collab0 service0 (Some recvState1) =
     (service0\<lparr>chainStateMsgStore := [stateMsg1]\<rparr>,
      [EmitterAdd \<lparr>Signed = stateMsg1, filter_of = IsNotSameFilter ''pB''\<rparr>,
       StoreAdd stateMsg1 True, ChannelHandleMessage ''c1'' recvState1])"
    using 1 3 4
    by (simp add: handleMessage_def handleChainStateMsg_def recvState1_def connB_def)
       (simp add: collab0_def service0_def signedOf_def stateMsg1_def chan1_def)
  have b: "handleMessage collab0 (service0\<lparr>chanState := Map.empty\<rparr>) (Some recvState1) =
     (service0\<lparr>chainStateMsgStore := [stateMsg1],
               chanState := [''c1'' \<mapsto> \<lparr>ChainID = ''c1'', AsLeader = False, ChanMembers = []\<rparr>]\<rparr>,
      [EmitterAdd \<lparr>Signed = stateMsg1, filter_of = IsNotSameFilter ''pB''\<rparr>,
       StoreAdd stateMsg1 True, JoinChannel ''c1'' False,
       ChannelHandleMessage ''c1'' recvState1])"
    using 1 3 4
    by (simp add: handleMessage_def handleChainStateMsg_def recvState1_def connB_def toDie_def)
       (simp add: collab0_def service0_def signedOf_def stateMsg1_def isInChannel_def
          GetState_def stateInfo0_def parse0_def state1_def joinChannel_def Let_def)
  have c: "handleMessage collab0 (service0\<lparr>chainStateMsgStore := [stateMsg1]\<rparr>) (Some recvState1) =
     (service0\<lparr>chainStateMsgStore := [stateMsg1]\<rparr>,
      [EmitterAdd \<lparr>Signed = stateMsg1, filter_of = IsNotSameFilter ''pB''\<rparr>,
       StoreAdd stateMsg1 False])"
    using 1 3 4
    by (simp add: handleMessage_def handleChainStateMsg_def recvState1_def connB_def toDie_def)
       (simp add: collab0_def service0_def)
  from handleMessage_chain_state [OF 1 2 3 4] 1 3 4 a b c show ?thesis
    by simp
qed

text \<open>
  What holds of every inbound membership request m: handleMessage forwards m to the
  discovery adapter's inbound channel only if m's embedded self-information parses to an
  alive message whose membership PKI-id equals the PKI-id of the connection's handshake.
  Where that holds, the service is running, m passes validateMsg and is not channel
  restricted and the adapter is not stopping, m is forwarded and nothing else is done.
\<close>

theorem handleMessage_memReq_forward:
  assumes "GetRKSyncMessage m = Some msg" and "GetMemReq msg = Some req"
  shows "(IncChanSend m' \<in> set (snd (handleMessage c g (Some m))) \<longrightarrow>
            m' = m \<and>
            (\<exists>sMsg am mem. ToRKSyncMessage c (SelfInformation req) = Inr sMsg \<and>
               GetAliveMsg sMsg = Some am \<and> Membership am = Some mem \<and>
               PkiId mem = ID (GetConnectionInfo m))) \<and>
         (\<not> toDie g \<and> validateMsg c m \<and> \<not> IsChannelRestricted c msg \<and>
          \<not> da_toDie (discAdapter g) \<and>
          (\<exists>sMsg am mem. ToRKSyncMessage c (SelfInformation req) = Inr sMsg \<and>
               GetAliveMsg sMsg = Some am \<and> Membership am = Some mem \<and>
               PkiId mem = ID (GetConnectionInfo m)) \<longrightarrow>
            handleMessage c g (Some m) = (g, [IncChanSend m]))"
proof -
  have s: "signedOf m = msg"
    using assms(1) by (simp add: signedOf_def)
  have d: "selectOnlyDiscoveryMessages m"
    using assms(2) s by (simp add: selectOnlyDiscoveryMessages_def)
  have n: "\<not> IsChainStateMsg msg"
    using assms(2) by (rule memReq_not_chain_state)
  have sub: "IncChanSend m' \<in> set (snd (handleMessage c g (Some m))) \<Longrightarrow>
      IncChanSend m' \<in> set (handleDiscoveryMsg c g m)"
    using assms(1) n d by (auto simp: handleMessage_def split: option.splits if_splits)
  have run: "\<not> toDie g \<and> validateMsg c m \<and> \<not> IsChannelRestricted c msg \<Longrightarrow>
      handleMessage c g (Some m) = (g, handleDiscoveryMsg c g m)"
    using assms(1) n d by (simp add: handleMessage_def)
  have hd: "handleDiscoveryMsg c g m =
     (case ToRKSyncMessage c (SelfInformation req) of
        Inl err \<Rightarrow> []
      | Inr sMsg \<Rightarrow>
          (case GetAliveMsg sMsg of
             None \<Rightarrow> []
           | Some am \<Rightarrow>
               (case Membership am of
                  None \<Rightarrow> [Panic]
                | Some mem \<Rightarrow>
                    if PkiId mem = ID (GetConnectionInfo m) then forwardDiscoveryMsg g m
                    else [])))"
    using assms(2) s by (simp add: handleDiscoveryMsg_memReq)
  have only_if: "IncChanSend m' \<in> set (handleDiscoveryMsg c g m) \<Longrightarrow>
            m' = m \<and>
            (\<exists>sMsg am mem. ToRKSyncMessage c (SelfInformation req) = Inr sMsg \<and>
               GetAliveMsg sMsg = Some am \<and> Membership am = Some mem \<and>
               PkiId mem = ID (GetConnectionInfo m))"
  proof -
    assume a: "IncChanSend m' \<in> set (handleDiscoveryMsg c g m)"
    show ?thesis
    proof (cases "ToRKSyncMessage c (SelfInformation req)")
      case (Inl err)
      with a hd show ?thesis by simp
    next
      case (Inr sMsg)
      note parsed = this
      show ?thesis
      proof (cases "GetAliveMsg sMsg")
        case None
        with a hd parsed show ?thesis by simp
      next
        case (Some am)
        note alive = this
        show ?thesis
        proof (cases "Membership am")
          case None
          with a hd parsed alive show ?thesis by simp
        next
          case (Some mem)
          with a hd parsed alive show ?thesis
            by (simp add: forwardDiscoveryMsg_def split: if_splits)
        qed
      qed
    qed
  qed
  have "if": "\<not> da_toDie (discAdapter g) \<Longrightarrow>
          (\<exists>sMsg am mem. ToRKSyncMessage c (SelfInformation req) = Inr sMsg \<and>
               GetAliveMsg sMsg = Some am \<and> Membership am = Some mem \<and>
               PkiId mem = ID (GetConnectionInfo m)) \<Longrightarrow>
          handleDiscoveryMsg c g m = [IncChanSend m]"
    unfolding hd by (auto simp: forwardDiscoveryMsg_def)
  show ?thesis
    using sub only_if run "if" by auto
qed

theorem handleMessage_memReq_forward_witness:
  "handleMessage collab0 service0 (Some (recvMemReq ''alive pB'')) =
     (service0, [IncChanSend (recvMemReq ''alive pB'')]) \<and>
   handleMessage collab0 service0 (Some (recvMemReq ''alive pA'')) = (service0, []) \<and>
   handleMessage collab0 service0 (Some (recvMemReq ''garbage'')) = (service0, [])"
proof -
  have 1: "GetRKSyncMessage (recvMemReq ''alive pB'') = Some (memReqOf ''alive pB'')"
    by (simp add: recvMemReq_def)
  have 2: "GetMemReq (memReqOf ''alive pB'') =
             Some \<lparr>SelfInformation = Some \<lparr>Payload = ''alive pB'', Signature = ''s''\<rparr>,
                   Known = [''pA'']\<rparr>"
    by (simp add: GetMemReq_def memReqOf_def)
  have pre: "\<not> toDie service0 \<and> validateMsg collab0 (recvMemReq ''alive pB'') \<and>
      \<not> IsChannelRestricted collab0 (memReqOf ''alive pB'') \<and>
      \<not> da_toDie (discAdapter service0)"
    by (simp add: toDie_def service0_def validateMsg_def signedOf_def recvMemReq_def
          collab0_def tagLegal0_def memReqOf_def GetMemReq_def GetAliveMsg_def da_toDie_def)
  have cond: "\<exists>sMsg am mem.
      ToRKSyncMessage collab0 (SelfInformation
         \<lparr>SelfInformation = Some \<lparr>Payload = ''alive pB'', Signature = ''s''\<rparr>,
          Known = [''pA'']\<rparr>) = Inr sMsg \<and>
      GetAliveMsg sMsg = Some am \<and> Membership am = Some mem \<and>
      PkiId mem = ID (GetConnectionInfo (recvMemReq ''alive pB''))"
    by (simp add: collab0_def parse0_def aliveOf_def GetAliveMsg_def recvMemReq_def connB_def)
  have a: "handleMessage collab0 service0 (Some (recvMemReq ''alive pB'')) =
     (service0, [IncChanSend (recvMemReq ''alive pB'')])"
    using handleMessage_memReq_forward [OF 1 2, of _ collab0 service0] pre cond by blast
  have run: "\<And>p. handleMessage collab0 service0 (Some (recvMemReq p)) =
      (service0, handleDiscoveryMsg collab0 service0 (recvMemReq p))"
    by (simp add: handleMessage_def toDie_def service0_def validateMsg_def signedOf_def
          recvMemReq_def collab0_def tagLegal0_def memReqOf_def GetMemReq_def
          GetAliveMsg_def IsChainStateMsg_def GetState_def selectOnlyDiscoveryMessages_def)
  have b: "handleDiscoveryMsg collab0 service0 (recvMemReq ''alive pA'') = []"
    by (simp add: handleDiscoveryMsg_def recvMemReq_def signedOf_def memReqOf_def
          GetMemReq_def collab0_def parse0_def aliveOf_def IsAliveMsg_def GetAliveMsg_def
          connB_def)
  have c: "handleDiscoveryMsg collab0 service0 (recvMemReq ''garbage'') = []"
    by (simp add: handleDiscoveryMsg_def recvMemReq_def signedOf_def memReqOf_def
          GetMemReq_def collab0_def parse0_def)
  from a b c run show ?thesis by simp
qed

text \<open>
  C5. For every inbound membership request m, handleMessage forwards m only if m's
  embedded self-information parses to an alive message whose membership PKI-id equals the
  handshake PKI-id, and otherwise rejects m. The code does not reject every other
  request: where the self-information parses to an alive message that carries no
  membership, handleMessage reads \<^verbatim>\<open>sMsg.GetAliveMsg().Membership.PkiId\<close> through the nil
  pointer and panics, on a running service and a request with a legal tag.
\<close>

theorem handleMessage_memReq_nil_membership_panics:
  "\<not> toDie service0 \<and>
   validateMsg collabNilMembership (recvMemReq ''alive'') \<and>
   GetMemReq (memReqOf ''alive'') =
     Some \<lparr>SelfInformation = Some \<lparr>Payload = ''alive'', Signature = ''s''\<rparr>,
           Known = [''pA'']\<rparr> \<and>
   ToRKSyncMessage collabNilMembership (Some \<lparr>Payload = ''alive'', Signature = ''s''\<rparr>)
     = Inr aliveNoMembership \<and>
   IsAliveMsg aliveNoMembership \<and>
   GetAliveMsg aliveNoMembership =
     Some \<lparr>Membership = None, Timestamp = Some \<lparr>IncNum = 1, SeqNum = 1\<rparr>, Identity = []\<rparr> \<and>
   handleMessage collabNilMembership service0 (Some (recvMemReq ''alive''))
     = (service0, [Panic])"
proof -
  have 1: "\<not> toDie service0"
    by (simp add: toDie_def service0_def)
  have 2: "validateMsg collabNilMembership (recvMemReq ''alive'')"
    by (simp add: validateMsg_def signedOf_def recvMemReq_def collabNilMembership_def
          collab0_def tagLegal0_def memReqOf_def GetMemReq_def GetAliveMsg_def)
  have 3: "GetMemReq (memReqOf ''alive'') =
     Some \<lparr>SelfInformation = Some \<lparr>Payload = ''alive'', Signature = ''s''\<rparr>,
           Known = [''pA'']\<rparr>"
    by (simp add: GetMemReq_def memReqOf_def)
  have 4: "ToRKSyncMessage collabNilMembership (Some \<lparr>Payload = ''alive'', Signature = ''s''\<rparr>)
     = Inr aliveNoMembership"
    by (simp add: collabNilMembership_def)
  have 5: "GetAliveMsg aliveNoMembership =
     Some \<lparr>Membership = None, Timestamp = Some \<lparr>IncNum = 1, SeqNum = 1\<rparr>, Identity = []\<rparr>"
    by (simp add: GetAliveMsg_def aliveNoMembership_def)
  have 6: "IsAliveMsg aliveNoMembership"
    by (simp add: IsAliveMsg_def 5)
  have run: "handleMessage collabNilMembership service0 (Some (recvMemReq ''alive'')) =
      (service0, handleDiscoveryMsg collabNilMembership service0 (recvMemReq ''alive''))"
    using 1 2
    by (simp add: handleMessage_def recvMemReq_def memReqOf_def IsChainStateMsg_def
          GetState_def selectOnlyDiscoveryMessages_def signedOf_def GetMemReq_def
          collabNilMembership_def collab0_def)
  have s: "signedOf (recvMemReq ''alive'') = memReqOf ''alive''"
    by (simp add: signedOf_def recvMemReq_def)
  have d: "handleDiscoveryMsg collabNilMembership service0 (recvMemReq ''alive'') = [Panic]"
    by (simp add: handleDiscoveryMsg_def s 3 4 5 6)
  from 1 2 3 4 5 6 run d show ?thesis
    by simp
qed

subsection \<open>Outbound messages\<close>



text \<open>
  C8. For every membership request sent through the discovery adapter's SendToPeer to a
  peer whose PKI-id is not empty (the adapter running, the self-information parsing, and
  NoopSign leaving the message it signs as it is), the message sent is the original with
  the self-information replaced by what the disclosure policy's envelope filter returns
  for the parsed self-information: the Known list, the nonce, the channel and the tag are
  those of the original.
\<close>

theorem SendToPeer_memReq:
  assumes "\<not> da_toDie da" and "GetMemReq msg = Some memReq" and "PKIID peer \<noteq> []"
    and "ToRKSyncMessage c (SelfInformation memReq) = Inr selfMsg"
    and "\<forall>s s'. NoopSign c s = Inr s' \<longrightarrow> Msg s' = Msg s"
  shows "SendToPeer c da peer msg =
           (case NoopSign c \<lparr>Env = None, Msg = (Msg msg)\<lparr>MsgContent := MemReq
                   \<lparr>SelfInformation = snd (da_disclosurePolicy da peer) selfMsg,
                    Known = Known memReq\<rparr>\<rparr>\<rparr> of
              Inl err \<Rightarrow> []
            | Inr sent \<Rightarrow> [SrvSend sent [peer]]) \<and>
         (\<forall>sent peers. SrvSend sent peers \<in> set (SendToPeer c da peer msg) \<longrightarrow>
            peers = [peer] \<and>
            MsgContent (Msg sent) = MemReq
              \<lparr>SelfInformation = snd (da_disclosurePolicy da peer) selfMsg,
               Known = Known memReq\<rparr> \<and>
            Nonce (Msg sent) = Nonce (Msg msg) \<and>
            Channel (Msg sent) = Channel (Msg msg) \<and>
            MsgTag (Msg sent) = MsgTag (Msg msg))"
proof -
  let ?m = "\<lparr>Env = None, Msg = (Msg msg)\<lparr>MsgContent := MemReq
                   \<lparr>SelfInformation = snd (da_disclosurePolicy da peer) selfMsg,
                    Known = Known memReq\<rparr>\<rparr>\<rparr>"
  have eq: "SendToPeer c da peer msg =
           (case NoopSign c ?m of Inl err \<Rightarrow> [] | Inr sent \<Rightarrow> [SrvSend sent [peer]])"
    using assms(1-4) by (simp add: SendToPeer_def Let_def clone_RKSyncMessage_id)
  show ?thesis
  proof (cases "NoopSign c ?m")
    case (Inl err)
    with eq show ?thesis by simp
  next
    case (Inr sent)
    with assms(5) have "Msg sent = Msg ?m" by blast
    with eq Inr show ?thesis by simp
  qed
qed

theorem SendToPeer_memReq_witness:
  "\<not> da_toDie redactingAdapter \<and> PKIID peerA \<noteq> [] \<and>
   SendToPeer collab0 redactingAdapter peerA (memReqOf ''alive pB'') =
     [SrvSend \<lparr>Env = Some \<lparr>Payload = ''noop'', Signature = []\<rparr>,
               Msg = \<lparr>Nonce = 7, Channel = [], MsgTag = EMPTY,
                      MsgContent = MemReq
                        \<lparr>SelfInformation = Some \<lparr>Payload = ''redacted'', Signature = []\<rparr>,
                         Known = [''pA'']\<rparr>\<rparr>\<rparr> [peerA]]"
proof -
  have 1: "\<not> da_toDie redactingAdapter"
    by (simp add: da_toDie_def redactingAdapter_def)
  have 2: "GetMemReq (memReqOf ''alive pB'') =
             Some \<lparr>SelfInformation = Some \<lparr>Payload = ''alive pB'', Signature = ''s''\<rparr>,
                   Known = [''pA'']\<rparr>"
    by (simp add: GetMemReq_def memReqOf_def)
  have 3: "PKIID peerA \<noteq> []"
    by (simp add: peerA_def)
  have 4: "ToRKSyncMessage collab0 (SelfInformation
             \<lparr>SelfInformation = Some \<lparr>Payload = ''alive pB'', Signature = ''s''\<rparr>,
              Known = [''pA'']\<rparr>) =
           Inr (aliveOf ''b:7051'' ''pB'' (Some \<lparr>Payload = ''alive pB'', Signature = ''s''\<rparr>))"
    by (simp add: collab0_def parse0_def)
  have 5: "\<forall>s s'. NoopSign collab0 s = Inr s' \<longrightarrow> Msg s' = Msg s"
    by (auto simp: collab0_def)
  have sent: "SendToPeer collab0 redactingAdapter peerA (memReqOf ''alive pB'') =
     [SrvSend \<lparr>Env = Some \<lparr>Payload = ''noop'', Signature = []\<rparr>,
               Msg = \<lparr>Nonce = 7, Channel = [], MsgTag = EMPTY,
                      MsgContent = MemReq
                        \<lparr>SelfInformation = Some \<lparr>Payload = ''redacted'', Signature = []\<rparr>,
                         Known = [''pA'']\<rparr>\<rparr>\<rparr> [peerA]]"
    unfolding SendToPeer_memReq [OF 1 2 3 4 5, THEN conjunct1]
    by (simp add: collab0_def redactingAdapter_def memReqOf_def)
  from 1 3 sent show ?thesis
    by simp
qed

text \<open>
  C6. For every alive message m (with a membership) and remote peer r, the sieve of the
  default disclosure policy returns true iff the endpoint in m's membership and r's
  endpoint are both non-empty; its envelope filter returns a copy of m's envelope equal
  to the original; and the sieve applied to a message that is not alive is fatal.
\<close>

theorem disclosurePolicy_default:
  "(GetAliveMsg m = Some am \<and> Membership am = Some mem \<longrightarrow>
      fst (disclosurePolicy r) m = Returned (Endpoint mem \<noteq> [] \<and> NMEndpoint r \<noteq> [])) \<and>
   snd (disclosurePolicy r) m = Env m \<and>
   (\<not> IsAliveMsg m \<longrightarrow> fst (disclosurePolicy r) m = LoggedFatal)"
  by (simp add: disclosurePolicy_def IsAliveMsg_def clone_Envelope_id)

theorem disclosurePolicy_default_witness:
  "fst (disclosurePolicy peerB) (aliveOf ''a:7051'' ''pA'' None) = Returned True \<and>
   fst (disclosurePolicy peerNoEndpoint) (aliveOf ''a:7051'' ''pA'' None) = Returned False \<and>
   snd (disclosurePolicy peerB) stateMsg1 = Env stateMsg1 \<and>
   fst (disclosurePolicy peerB) stateMsg1 = LoggedFatal"
  using disclosurePolicy_default
    [of "aliveOf ''a:7051'' ''pA'' None"
        "\<lparr>Membership = Some \<lparr>Endpoint = ''a:7051'', PkiId = ''pA''\<rparr>,
          Timestamp = Some \<lparr>IncNum = 1, SeqNum = 1\<rparr>, Identity = []\<rparr>"
        "\<lparr>Endpoint = ''a:7051'', PkiId = ''pA''\<rparr>" peerB]
    disclosurePolicy_default
    [of "aliveOf ''a:7051'' ''pA'' None"
        "\<lparr>Membership = Some \<lparr>Endpoint = ''a:7051'', PkiId = ''pA''\<rparr>,
          Timestamp = Some \<lparr>IncNum = 1, SeqNum = 1\<rparr>, Identity = []\<rparr>"
        "\<lparr>Endpoint = ''a:7051'', PkiId = ''pA''\<rparr>" peerNoEndpoint]
    disclosurePolicy_default [of stateMsg1 _ _ peerB]
  by (simp add: aliveOf_def GetAliveMsg_def IsAliveMsg_def stateMsg1_def peerB_def
        peerNoEndpoint_def)

text \<open>
  C10. If the configured PropagateIterations is zero, then for every message the
  discovery adapter's Gossip and Forward add nothing to the batching emitter (they make
  no call at all).
\<close>

theorem no_propagation_when_zero_iterations:
  assumes "PropagateIterations (conf g) = 0"
  shows "Gossip g msg = [] \<and> Forward g rmsg = []"
  using assms by (simp add: Gossip_def Forward_def gossipFunc_def forwardFunc_def)

theorem no_propagation_when_zero_iterations_witness:
  "PropagateIterations (conf serviceNoPropagation) = 0 \<and>
   Gossip serviceNoPropagation stateMsg1 = [] \<and>
   Forward serviceNoPropagation recvState1 = [] \<and>
   Gossip service0 stateMsg1 = [EmitterAdd \<lparr>Signed = stateMsg1, filter_of = (\<lambda>_. True)\<rparr>]"
  using no_propagation_when_zero_iterations [of serviceNoPropagation stateMsg1 recvState1]
  by (simp add: serviceNoPropagation_def service0_def Gossip_def gossipFunc_def da_toDie_def)

subsection \<open>The service's interface\<close>

text \<open>
  C3, as stated, fails on a stopping service: the stopping guard comes before the MAC
  check, so a chain state with a mismatched MAC is answered with the error "service is
  stopping", which is not an invalid-input error.
\<close>

theorem InitializeChannel_stopping_counterexample:
  "toDie serviceStopping \<and>
   ChainMac (state1\<lparr>ChainMac := ''sha256(pBc2)''\<rparr>)
     \<noteq> GenerateMAC (ComputeSHA256 collab0) (selfPKIid serviceStopping) ''c2'' \<and>
   InitializeChannel collab0 serviceStopping ''c2'' (state1\<lparr>ChainMac := ''sha256(pBc2)''\<rparr>)
     = (Some ServiceIsStopping, serviceStopping) \<and>
   kind_of ServiceIsStopping \<noteq> InvalidInput"
  by (simp add: InitializeChannel_def collab0_def service0_def serviceStopping_def
        state1_def GenerateMAC_def toDie_def)

text \<open>
  C3, amended. For every chain id and chain state whose MAC differs from
  SHA256(selfPKIid \<parallel> chainID), InitializeChannel returns an error and leaves the service,
  its channel registry included, as it was (no channel is created for the chain id); the
  error is an invalid-input one on a service that is not stopping, and the stopping error
  on a stopping service given a chain id. The same atomicity (an error, nothing changed)
  holds for an empty chain id, for a stopping service, when the state's envelope does not
  parse to a message that verifies under the local PKI-id, and when the state's
  information does not name the local PKI-id as leader.
\<close>

theorem InitializeChannel_rejects_atomically:
  "(ChainMac cs \<noteq> GenerateMAC (ComputeSHA256 c) (selfPKIid g) chainID \<longrightarrow>
      (\<exists>e. InitializeChannel c g chainID cs = (Some e, g) \<and>
           (\<not> toDie g \<longrightarrow> kind_of e = InvalidInput))) \<and>
   (chainID = [] \<longrightarrow> InitializeChannel c g chainID cs = (Some ChannelIDMustBeProvided, g)) \<and>
   (toDie g \<longrightarrow> (\<exists>e. InitializeChannel c g chainID cs = (Some e, g))) \<and>
   (toDie g \<and> chainID \<noteq> [] \<longrightarrow>
      InitializeChannel c g chainID cs = (Some ServiceIsStopping, g)) \<and>
   ((\<forall>signedMsg. ToRKSyncMessage c (StateEnvelope cs) = Inr signedMsg \<longrightarrow>
        Verify c (selfPKIid g) signedMsg \<noteq> None) \<longrightarrow>
      (\<exists>e. InitializeChannel c g chainID cs = (Some e, g))) \<and>
   ((\<forall>stateInfo. GetChainStateInfo c (Some cs) = Inr stateInfo \<longrightarrow>
        Leader stateInfo \<noteq> selfPKIid g) \<longrightarrow>
      (\<exists>e. InitializeChannel c g chainID cs = (Some e, g)))"
  by (auto simp: InitializeChannel_def Let_def split: sum.splits option.splits)

theorem InitializeChannel_rejects_atomically_witness:
  "ChainMac (state1\<lparr>ChainMac := ''sha256(pBc2)''\<rparr>)
     \<noteq> GenerateMAC (ComputeSHA256 collab0) (selfPKIid service0) ''c2'' \<and>
   \<not> toDie service0 \<and>
   InitializeChannel collab0 service0 ''c2'' (state1\<lparr>ChainMac := ''sha256(pBc2)''\<rparr>)
     = (Some (ChannelMACDoesntMatch ''sha256(selfc2)'' ''sha256(pBc2)''), service0) \<and>
   chanState service0 ''c2'' = None \<and>
   InitializeChannel collab0 service0 [] state1 = (Some ChannelIDMustBeProvided, service0) \<and>
   InitializeChannel collab0 serviceStopping ''c2'' (state1\<lparr>ChainMac := ''sha256(selfc2)''\<rparr>)
     = (Some ServiceIsStopping, serviceStopping) \<and>
   InitializeChannel collabBadSig service0 ''c2'' (state1\<lparr>ChainMac := ''sha256(selfc2)''\<rparr>)
     = (Some (FailedVerifyingSignature ''bad signature''), service0) \<and>
   fst (InitializeChannel collab0 service0 ''c2'' (state1\<lparr>ChainMac := ''sha256(selfc2)''\<rparr>))
     = None \<and>
   chanState (snd (InitializeChannel collab0 service0 ''c2''
       (state1\<lparr>ChainMac := ''sha256(selfc2)''\<rparr>))) ''c2''
     = Some \<lparr>ChainID = ''c2'', AsLeader = True, ChanMembers = [''self'', ''pA'']\<rparr>"
  using InitializeChannel_rejects_atomically
    [of "state1\<lparr>ChainMac := ''sha256(pBc2)''\<rparr>" collab0 service0 "''c2''"]
  by (simp add: InitializeChannel_def collab0_def collabBadSig_def service0_def
        serviceStopping_def state1_def GenerateMAC_def toDie_def parse0_def stateInfo0_def
        joinChannel_def chan1_def Let_def)

text \<open>
  C7. For every node id and certificate, GetPKIidOfCert returns the SHA-256 digest of the
  node id's bytes followed by the PEM encoding of the certificate (a CERTIFICATE block of
  the certificate's DER bytes), and it returns an error exactly when the PEM encoding
  fails.
\<close>

theorem GetPKIidOfCert_digest:
  "GetPKIidOfCert sha pem nodeID cert =
     (case pem \<lparr>BlockType = ''CERTIFICATE'', BlockBytes = Raw cert\<rparr> of
        None \<Rightarrow> Inl EncodingOfCertificateFailed
      | Some pemBytes \<Rightarrow> Inr (sha (nodeID @ pemBytes)))"
  by (simp add: GetPKIidOfCert_def Let_def split: option.splits)

text \<open>
  C9. Once Stop has been called, the stop flag is set, Peers returns the empty member
  list whatever membership discovery holds, and a second call of Stop changes nothing and
  runs none of the shutdown sequence.
\<close>

theorem Stop_idempotent:
  "toDie (fst (Stop g)) \<and>
   Peers ((fst (Stop g))\<lparr>disc := membership\<rparr>) = Returned [] \<and>
   Stop (fst (Stop g)) = (fst (Stop g), [])"
  by (simp add: Stop_def toDie_def Peers_def)

end
